theory Spec2Isabelle
  imports
    Main
    "HOL-Library.Char_ord"
    "HOL-Library.List_Lexorder"
    "HOL-Library.Multiset"
    "HOL-Library.Sublist"
begin

section \<open>The seeder of grav-lsm: loading and running seed files\<close>

text \<open>
  This theory embeds \<^verbatim>\<open>internal/database/seeder.go\<close>. A Go string is a sequence of
  bytes, and so is a HOL \<open>string\<close>; with \<open>Char_ord\<close> and \<open>List_Lexorder\<close> the order
  \<open><\<close> on \<open>string\<close> is the bytewise lexicographic order that Go's \<^verbatim>\<open><\<close> on strings
  computes (a proper prefix is smaller).
\<close>

subsection \<open>Data: \<^verbatim>\<open>Seed\<close>, errors, the file system, the database connection\<close>

text \<open>\<^verbatim>\<open>type Seed struct { Name string; SQL string }\<close>\<close>

record seed =
  Name :: string
  SQL :: string

text \<open>
  The errors that \<^verbatim>\<open>LoadSeeds\<close> and \<^verbatim>\<open>executeSeed\<close> build with
  \<^verbatim>\<open>fmt.Errorf\<close>. Each constructor stands for one format string; the last argument is
  the message of the wrapped cause (\<^verbatim>\<open>%w\<close>), the one before it, where there is one,
  the \<^verbatim>\<open>%s\<close> argument. \<open>Error\<close> is the text that the Go error's \<^verbatim>\<open>Error()\<close>
  method returns.
\<close>

datatype error =
    ReadDirFailed string
  | ParseSeedFailed string string
  | BeginFailed string
  | ExecFailed string string
  | CommitFailed string string

fun Error :: "error \<Rightarrow> string" where
  "Error (ReadDirFailed cause) = ''failed to read seeds directory: '' @ cause"
| "Error (ParseSeedFailed file cause) = ''failed to parse seed file '' @ file @ '': '' @ cause"
| "Error (BeginFailed cause) = ''error starting transaction: '' @ cause"
| "Error (ExecFailed nm cause) = ''error executing seed '' @ nm @ '': '' @ cause"
| "Error (CommitFailed nm cause) = ''error committing seed '' @ nm @ '': '' @ cause"

text \<open>
  The file system, as the two library calls of the seeder see it. \<open>readdir\<close> is what
  \<^verbatim>\<open>os.Open\<close> followed by \<^verbatim>\<open>f.Readdir(-1)\<close> gives for a directory path: the message
  of an error, or the entries in the order in which the file system enumerates them.
  \<open>readfile\<close> is \<^verbatim>\<open>ioutil.ReadFile\<close>: the message of an error, or the bytes of the
  file. Of an entry (\<^verbatim>\<open>os.FileInfo\<close>) the name and the directory flag are kept.
\<close>

record file_info =
  fi_name :: string
  fi_is_dir :: bool

record filesys =
  readdir :: "string \<Rightarrow> string + file_info list"
  readfile :: "string \<Rightarrow> string + string"

datatype fs_call = ReadDirCall string | ReadFileCall string

text \<open>
  The database behind \<^verbatim>\<open>*sql.DB\<close>. The seeder makes four kinds of calls; \<open>Exec\<close>,
  \<open>Commit\<close> and \<open>Rollback\<close> are made on the transaction that the latest \<open>Begin\<close>
  returned. A driver decides the outcome of a call from the calls made so far:
  \<open>None\<close> is Go's \<^verbatim>\<open>nil\<close> error, \<open>Some cause\<close> an error with that message.
\<close>

datatype db_call = Begin | Exec string | Commit | Rollback

type_synonym db_event = "db_call \<times> string option"

type_synonym driver = "db_event list \<Rightarrow> db_call \<Rightarrow> string option"

text \<open>
  The state that the seeder's methods read and write: \<open>seeds\<close> is the field
  \<^verbatim>\<open>Seeder.seeds\<close>; \<open>db_trace\<close> is the history of the connection \<^verbatim>\<open>Seeder.db\<close>,
  every call with its outcome; \<open>fs_trace\<close> lists the calls made to the file system and
  \<open>stdout\<close> is what \<^verbatim>\<open>fmt.Printf\<close> has written.
\<close>

record state =
  seeds :: "seed list"
  db_trace :: "db_event list"
  fs_trace :: "fs_call list"
  stdout :: string

text \<open>\<^verbatim>\<open>NewSeeder(db)\<close>: no seeds are loaded.\<close>

definition NewSeeder :: "db_event list \<Rightarrow> state" where
  "NewSeeder d = \<lparr>seeds = [], db_trace = d, fs_trace = [], stdout = []\<rparr>"

subsection \<open>Library functions: \<^verbatim>\<open>sort.Slice\<close>\<close>

text \<open>
  \<^verbatim>\<open>sort.Slice\<close> sorts a slice in place by a \<^verbatim>\<open>less\<close> function. For slices of at most
  twelve elements it runs the insertion sort below: element \<open>i\<close> is swapped with its
  predecessor as long as it is less than it. (Longer slices are sorted by a pattern-defeating
  quicksort that may order elements with equal keys differently; the theorems below use of
  the result only that it is a permutation ordered by the key.) \<open>sift\<close> is the inner
  loop; its list argument is the sorted part before position \<open>i\<close>, last element first.
\<close>

fun sift :: "('a \<Rightarrow> 'a \<Rightarrow> bool) \<Rightarrow> 'a \<Rightarrow> 'a list \<Rightarrow> 'a list" where
  "sift lt x [] = [x]"
| "sift lt x (y # ys) = (if lt x y then y # sift lt x ys else x # y # ys)"

definition sort_Slice :: "('a \<Rightarrow> 'a \<Rightarrow> bool) \<Rightarrow> 'a list \<Rightarrow> 'a list" where
  "sort_Slice lt xs = rev (foldl (\<lambda>acc x. sift lt x acc) [] xs)"

subsection \<open>Library functions: \<^verbatim>\<open>path/filepath\<close> (Unix)\<close>

definition IsPathSeparator :: "char \<Rightarrow> bool" where
  "IsPathSeparator c = (c = CHR ''/'')"

text \<open>
  \<^verbatim>\<open>filepath.Ext\<close>: scan from the last byte towards the first, stop at a separator;
  the extension starts at the first dot met. \<open>ext_scan\<close> takes the bytes not yet
  scanned, last one first, and the bytes already passed.
\<close>

fun ext_scan :: "string \<Rightarrow> string \<Rightarrow> string" where
  "ext_scan [] passed = []"
| "ext_scan (c # cs) passed =
     (if IsPathSeparator c then []
      else if c = CHR ''.'' then c # passed
      else ext_scan cs (c # passed))"

definition Ext :: "string \<Rightarrow> string" where
  "Ext path = ext_scan (rev path) []"

text \<open>
  \<^verbatim>\<open>filepath.Base\<close>: the last element of the path, after trailing separators are
  stripped; \<^verbatim>\<open>"."\<close> for the empty path and \<^verbatim>\<open>"/"\<close> for a path of separators only.
\<close>

definition Base :: "string \<Rightarrow> string" where
  "Base path =
     (if path = [] then ''.''
      else
        let stripped = rev (dropWhile IsPathSeparator (rev path));
            elem = rev (takeWhile (\<lambda>c. \<not> IsPathSeparator c) (rev stripped))
        in if elem = [] then ''/'' else elem)"

text \<open>
  \<^verbatim>\<open>filepath.Clean\<close>. The output buffer is kept with its last byte first, so that
  appending is \<open>#\<close> and the write index \<^verbatim>\<open>out.w\<close> is the length. \<open>backtrack\<close> is the
  \<^verbatim>\<open>..\<close> case that removes the last element written: \<^verbatim>\<open>out.w--\<close>, then further while
  \<^verbatim>\<open>out.w > dotdot\<close> and the byte at \<^verbatim>\<open>out.w\<close> is no separator.
\<close>

fun backtrack :: "nat \<Rightarrow> string \<Rightarrow> string" where
  "backtrack dotdot [] = []"
| "backtrack dotdot (c # out) =
     (if length out > dotdot \<and> \<not> IsPathSeparator c then backtrack dotdot out else out)"

function clean_loop :: "bool \<Rightarrow> string \<Rightarrow> string \<Rightarrow> nat \<Rightarrow> string" where
  "clean_loop rooted path out dotdot =
     (case path of
        [] \<Rightarrow> out
      | c # rest \<Rightarrow>
          if IsPathSeparator c then clean_loop rooted rest out dotdot
          else if c = CHR ''.'' \<and> (rest = [] \<or> IsPathSeparator (hd rest)) then
            clean_loop rooted rest out dotdot
          else if c = CHR ''.'' \<and> hd rest = CHR ''.''
                  \<and> (tl rest = [] \<or> IsPathSeparator (hd (tl rest))) then
            (if length out > dotdot then
               clean_loop rooted (tl rest) (backtrack dotdot out) dotdot
             else if \<not> rooted then
               (let out' = CHR ''.'' # CHR ''.'' # (if length out > 0 then CHR ''/'' # out else out)
                in clean_loop rooted (tl rest) out' (length out'))
             else clean_loop rooted (tl rest) out dotdot)
          else
            (let out' = (if rooted \<and> length out \<noteq> 1 \<or> \<not> rooted \<and> length out \<noteq> 0
                         then CHR ''/'' # out else out)
             in clean_loop rooted (dropWhile (\<lambda>c. \<not> IsPathSeparator c) path)
                  (rev (takeWhile (\<lambda>c. \<not> IsPathSeparator c) path) @ out') dotdot))"
  by pat_completeness auto
termination
proof (relation "measure (\<lambda>(rooted, path, out, dotdot). length path)", goal_cases)
  case 1
  show ?case by simp
next
  case (2 rooted path out dotdot c rest)
  then show ?case by simp
next
  case (3 rooted path out dotdot c rest)
  then show ?case by simp
next
  case (4 rooted path out dotdot c rest)
  then show ?case by (cases rest) auto
next
  case (5 rooted path out dotdot c rest)
  then show ?case by (cases rest) auto
next
  case (6 rooted path out dotdot c rest)
  then show ?case by (cases rest) auto
next
  case (7 rooted path out dotdot c rest)
  then show ?case
    using length_dropWhile_le [of "\<lambda>c. \<not> IsPathSeparator c" rest] by simp
qed

declare clean_loop.simps [simp del]

definition Clean :: "string \<Rightarrow> string" where
  "Clean path =
     (if path = [] then ''.''
      else
        let rooted = IsPathSeparator (hd path);
            out = clean_loop rooted (if rooted then tl path else path)
                    (if rooted then ''/'' else []) (if rooted then 1 else 0)
        in if out = [] then ''.'' else rev out)"

text \<open>\<^verbatim>\<open>strings.Join(elems, sep)\<close>\<close>

fun strings_Join :: "string list \<Rightarrow> string \<Rightarrow> string" where
  "strings_Join [] sep = []"
| "strings_Join [e] sep = e"
| "strings_Join (e # es) sep = e @ sep @ strings_Join es sep"

text \<open>
  \<^verbatim>\<open>filepath.Join\<close>: the elements from the first non-empty one on, joined by the
  separator and cleaned; the empty string when every element is empty.
\<close>

fun Join :: "string list \<Rightarrow> string" where
  "Join [] = []"
| "Join (e # es) = (if e \<noteq> [] then Clean (strings_Join (e # es) ''/'') else Join es)"

subsection \<open>Library functions: \<^verbatim>\<open>strings.TrimSpace\<close>\<close>

text \<open>
  \<^verbatim>\<open>strings.TrimSpace\<close> removes every leading and every trailing rune \<open>r\<close> with
  \<^verbatim>\<open>unicode.IsSpace(r)\<close>, reading the runes from the UTF-8 bytes of the string. The
  decoder yields a white-space rune exactly where the bytes are the (shortest) encoding of
  one; every other byte sequence, an invalid one too, decodes to a rune that is no white
  space. \<open>White_Space\<close> lists these encodings: the six of ASCII, then U+0085, U+00A0,
  U+1680, U+2000 to U+200A, U+2028, U+2029, U+202F, U+205F and U+3000.
\<close>

definition White_Space :: "string list" where
  "White_Space =
     [[CHR 0x09], [CHR 0x0A], [CHR 0x0B], [CHR 0x0C], [CHR 0x0D], [CHR 0x20],
      [CHR 0xC2, CHR 0x85], [CHR 0xC2, CHR 0xA0],
      [CHR 0xE1, CHR 0x9A, CHR 0x80],
      [CHR 0xE2, CHR 0x80, CHR 0x80], [CHR 0xE2, CHR 0x80, CHR 0x81],
      [CHR 0xE2, CHR 0x80, CHR 0x82], [CHR 0xE2, CHR 0x80, CHR 0x83],
      [CHR 0xE2, CHR 0x80, CHR 0x84], [CHR 0xE2, CHR 0x80, CHR 0x85],
      [CHR 0xE2, CHR 0x80, CHR 0x86], [CHR 0xE2, CHR 0x80, CHR 0x87],
      [CHR 0xE2, CHR 0x80, CHR 0x88], [CHR 0xE2, CHR 0x80, CHR 0x89],
      [CHR 0xE2, CHR 0x80, CHR 0x8A],
      [CHR 0xE2, CHR 0x80, CHR 0xA8], [CHR 0xE2, CHR 0x80, CHR 0xA9],
      [CHR 0xE2, CHR 0x80, CHR 0xAF],
      [CHR 0xE2, CHR 0x81, CHR 0x9F],
      [CHR 0xE3, CHR 0x80, CHR 0x80]]"

text \<open>
  The width in bytes of the white-space rune at the start, respectively at the end, of a
  string; 0 when the first (last) rune is no white space or the string is empty.
\<close>

fun first_width :: "string list \<Rightarrow> string \<Rightarrow> nat" where
  "first_width [] s = 0"
| "first_width (w # ws) s = (if prefix w s then length w else first_width ws s)"

fun last_width :: "string list \<Rightarrow> string \<Rightarrow> nat" where
  "last_width [] s = 0"
| "last_width (w # ws) s = (if suffix w s then length w else last_width ws s)"

definition leading_space :: "string \<Rightarrow> nat" where
  "leading_space s = first_width White_Space s"

definition trailing_space :: "string \<Rightarrow> nat" where
  "trailing_space s = last_width White_Space s"

function TrimLeft :: "string \<Rightarrow> string" where
  "TrimLeft s = (if leading_space s = 0 then s else TrimLeft (drop (leading_space s) s))"
  by pat_completeness auto
termination
proof (relation "measure length", goal_cases)
  case 1
  show ?case by simp
next
  case (2 s)
  have "first_width ws [] = 0" for ws
    by (induction ws) auto
  with 2 show ?case by (cases s) (auto simp: leading_space_def)
qed

function TrimRight :: "string \<Rightarrow> string" where
  "TrimRight s =
     (if trailing_space s = 0 then s else TrimRight (take (length s - trailing_space s) s))"
  by pat_completeness auto
termination
proof (relation "measure length", goal_cases)
  case 1
  show ?case by simp
next
  case (2 s)
  have "last_width ws [] = 0" for ws
    by (induction ws) auto
  with 2 show ?case by (cases s) (auto simp: trailing_space_def)
qed

declare TrimLeft.simps [simp del] TrimRight.simps [simp del]

definition TrimSpace :: "string \<Rightarrow> string" where
  "TrimSpace s = TrimRight (TrimLeft s)"

subsection \<open>Library functions: \<^verbatim>\<open>ioutil.ReadDir\<close>, \<^verbatim>\<open>ioutil.ReadFile\<close>\<close>

text \<open>
  \<^verbatim>\<open>ioutil.ReadDir\<close> opens and lists the directory and returns the entries sorted by
  file name (\<^verbatim>\<open>sort.Slice\<close> with \<^verbatim>\<open>list[i].Name() < list[j].Name()\<close>).
\<close>

definition ReadDir :: "filesys \<Rightarrow> state \<Rightarrow> string \<Rightarrow> (string + file_info list) \<times> state" where
  "ReadDir fs st dirname =
     (let st' = st\<lparr>fs_trace := fs_trace st @ [ReadDirCall dirname]\<rparr>
      in case readdir fs dirname of
           Inl err \<Rightarrow> (Inl err, st')
         | Inr entries \<Rightarrow> (Inr (sort_Slice (\<lambda>a b. fi_name a < fi_name b) entries), st'))"

definition ReadFile :: "filesys \<Rightarrow> state \<Rightarrow> string \<Rightarrow> (string + string) \<times> state" where
  "ReadFile fs st filename =
     (readfile fs filename, st\<lparr>fs_trace := fs_trace st @ [ReadFileCall filename]\<rparr>)"

subsection \<open>The seeder\<close>

text \<open>\<^verbatim>\<open>parseSeedFile\<close> reads and parses a seed file.\<close>

definition parseSeedFile :: "filesys \<Rightarrow> state \<Rightarrow> string \<Rightarrow> (string + seed) \<times> state" where
  "parseSeedFile fs st filename =
     (case ReadFile fs st filename of
        (Inl err, st') \<Rightarrow> (Inl err, st')
      | (Inr content, st') \<Rightarrow>
          (Inr \<lparr>Name = Base filename, SQL = TrimSpace content\<rparr>, st'))"

text \<open>
  The loop of \<^verbatim>\<open>LoadSeeds\<close> over the entries: an entry with the extension
  \<^verbatim>\<open>.sql\<close> is parsed and the seed appended to \<^verbatim>\<open>s.seeds\<close>; the first file that
  cannot be parsed ends the call with an error.
\<close>

fun load_files :: "filesys \<Rightarrow> string \<Rightarrow> file_info list \<Rightarrow> state \<Rightarrow> error option \<times> state" where
  "load_files fs dir [] st = (None, st)"
| "load_files fs dir (file # files) st =
     (if Ext (fi_name file) = ''.sql'' then
        (case parseSeedFile fs st (Join [dir, fi_name file]) of
           (Inl err, st') \<Rightarrow> (Some (ParseSeedFailed (fi_name file) err), st')
         | (Inr sd, st') \<Rightarrow> load_files fs dir files (st'\<lparr>seeds := seeds st' @ [sd]\<rparr>))
      else load_files fs dir files st)"

text \<open>
  \<^verbatim>\<open>LoadSeeds\<close> loads all seed files from the directory; after the loop it sorts
  \<^verbatim>\<open>s.seeds\<close> by name.
\<close>

definition LoadSeeds :: "filesys \<Rightarrow> string \<Rightarrow> state \<Rightarrow> error option \<times> state" where
  "LoadSeeds fs dir st =
     (case ReadDir fs st dir of
        (Inl err, st') \<Rightarrow> (Some (ReadDirFailed err), st')
      | (Inr files, st') \<Rightarrow>
          (case load_files fs dir files st' of
             (Some e, st'') \<Rightarrow> (Some e, st'')
           | (None, st'') \<Rightarrow>
               (None, st''\<lparr>seeds := sort_Slice (\<lambda>a b. Name a < Name b) (seeds st'')\<rparr>)))"

text \<open>One call on the connection: the driver decides, the call and its outcome are recorded.\<close>

definition db_do :: "driver \<Rightarrow> state \<Rightarrow> db_call \<Rightarrow> string option \<times> state" where
  "db_do drv st call =
     (let r = drv (db_trace st) call
      in (r, st\<lparr>db_trace := db_trace st @ [(call, r)]\<rparr>))"

text \<open>\<^verbatim>\<open>executeSeed\<close> runs a single seed file in a transaction of its own.\<close>

definition executeSeed :: "driver \<Rightarrow> state \<Rightarrow> seed \<Rightarrow> error option \<times> state" where
  "executeSeed drv st sd =
     (case db_do drv st Begin of
        (Some err, st1) \<Rightarrow> (Some (BeginFailed err), st1)
      | (None, st1) \<Rightarrow>
          (case db_do drv st1 (Exec (SQL sd)) of
             (Some err, st2) \<Rightarrow>
               (case db_do drv st2 Rollback of
                  (_, st3) \<Rightarrow> (Some (ExecFailed (Name sd) err), st3))
           | (None, st2) \<Rightarrow>
               (case db_do drv st2 Commit of
                  (Some err, st3) \<Rightarrow> (Some (CommitFailed (Name sd) err), st3)
                | (None, st3) \<Rightarrow>
                    (None, st3\<lparr>stdout := stdout st3 @ ''Executed seed: '' @ Name sd @ [CHR 0x0A]\<rparr>))))"

text \<open>\<^verbatim>\<open>Seed\<close> executes all loaded seed files; the loop returns at the first error.\<close>

fun seed_loop :: "driver \<Rightarrow> state \<Rightarrow> seed list \<Rightarrow> error option \<times> state" where
  "seed_loop drv st [] = (None, st)"
| "seed_loop drv st (sd # sds) =
     (case executeSeed drv st sd of
        (Some err, st') \<Rightarrow> (Some err, st')
      | (None, st') \<Rightarrow> seed_loop drv st' sds)"

definition Seed :: "driver \<Rightarrow> state \<Rightarrow> error option \<times> state" where
  "Seed drv st = seed_loop drv st (seeds st)"

subsection \<open>Notions used to state the properties\<close>

text \<open>
  The name of a directory entry, as a file system hands it out: not empty, neither
  \<^verbatim>\<open>.\<close> nor \<^verbatim>\<open>..\<close>, and without a separator.
\<close>

definition valid_name :: "string \<Rightarrow> bool" where
  "valid_name n = (n \<noteq> [] \<and> n \<noteq> ''.'' \<and> n \<noteq> ''..'' \<and> CHR ''/'' \<notin> set n)"

text \<open>The entries that the loop of \<^verbatim>\<open>LoadSeeds\<close> parses, and the path it reads for one.\<close>

definition selected :: "file_info list \<Rightarrow> file_info list" where
  "selected files = filter (\<lambda>f. Ext (fi_name f) = ''.sql'') files"

definition seed_path :: "string \<Rightarrow> file_info \<Rightarrow> string" where
  "seed_path dir f = Join [dir, fi_name f]"

definition reads :: "string \<Rightarrow> file_info list \<Rightarrow> fs_call list" where
  "reads dir files = map (\<lambda>f. ReadFileCall (seed_path dir f)) files"

text \<open>
  What \<^verbatim>\<open>parseSeedFile\<close> returns for an entry of the directory: no seed when the file
  cannot be read.
\<close>

definition parsed :: "filesys \<Rightarrow> string \<Rightarrow> file_info \<Rightarrow> seed option" where
  "parsed fs dir f =
     (case readfile fs (seed_path dir f) of
        Inl err \<Rightarrow> None
      | Inr content \<Rightarrow> Some \<lparr>Name = Base (seed_path dir f), SQL = TrimSpace content\<rparr>)"

text \<open>
  The calls of \<^verbatim>\<open>executeSeed\<close> for a seed that is committed, the line it prints, and
  the calls of an execution that ends with the given error (\<open>rb\<close> is the outcome of the
  rollback).
\<close>

definition ok_calls :: "seed \<Rightarrow> db_event list" where
  "ok_calls sd = [(Begin, None), (Exec (SQL sd), None), (Commit, None)]"

definition notice :: "seed \<Rightarrow> string" where
  "notice sd = ''Executed seed: '' @ Name sd @ [CHR 0x0A]"

fun failed_calls :: "seed \<Rightarrow> string option \<Rightarrow> error \<Rightarrow> db_event list" where
  "failed_calls sd rb (BeginFailed c) = [(Begin, Some c)]"
| "failed_calls sd rb (ExecFailed nm c) = [(Begin, None), (Exec (SQL sd), Some c), (Rollback, rb)]"
| "failed_calls sd rb (CommitFailed nm c) = [(Begin, None), (Exec (SQL sd), None), (Commit, Some c)]"
| "failed_calls sd rb (ReadDirFailed c) = []"
| "failed_calls sd rb (ParseSeedFailed f c) = []"

subsection \<open>Example inputs\<close>

text \<open>
  A seed directory as in the scenarios of the specification, enumerated by the file system
  in an order that is not the order of the names, and a second directory in which one
  seed file cannot be read.
\<close>

definition users_sql :: string where
  "users_sql = ''INSERT INTO users (id) VALUES (1);''"

definition posts_sql :: string where
  "posts_sql = ''INSERT INTO posts (id, user_id) VALUES (1, 1);'' @ [CHR 0x0A, CHR 0x0A] @ ''INSERT INTO posts (id, user_id) VALUES (2, 1);''"

definition example_fs :: filesys where
  "example_fs =
     \<lparr>readdir = (\<lambda>d.
        if d = ''seeds'' then
          Inr [\<lparr>fi_name = ''002_posts.sql'', fi_is_dir = False\<rparr>,
               \<lparr>fi_name = ''notes.txt'', fi_is_dir = False\<rparr>,
               \<lparr>fi_name = ''archive'', fi_is_dir = True\<rparr>,
               \<lparr>fi_name = ''001_users.sql'', fi_is_dir = False\<rparr>]
        else if d = ''broken'' then
          Inr [\<lparr>fi_name = ''003_tags.sql'', fi_is_dir = False\<rparr>,
               \<lparr>fi_name = ''002_posts.sql'', fi_is_dir = False\<rparr>,
               \<lparr>fi_name = ''001_users.sql'', fi_is_dir = False\<rparr>]
        else Inl (''open '' @ d @ '': no such file or directory'')),
      readfile = (\<lambda>p.
        if p = ''seeds/001_users.sql'' \<or> p = ''broken/001_users.sql'' then
          Inr ([CHR 0x20, CHR 0x0A] @ users_sql @ [CHR 0x0A])
        else if p = ''seeds/002_posts.sql'' then
          Inr (posts_sql @ [CHR 0x0A, CHR 0xC2, CHR 0xA0, CHR 0x09])
        else if p = ''broken/002_posts.sql'' then
          Inl (''open '' @ p @ '': permission denied'')
        else Inl (''open '' @ p @ '': no such file or directory''))\<rparr>"

definition users_seed :: seed where
  "users_seed = \<lparr>Name = ''001_users.sql'', SQL = users_sql\<rparr>"

definition posts_seed :: seed where
  "posts_seed = \<lparr>Name = ''002_posts.sql'', SQL = posts_sql\<rparr>"

definition roles_seed :: seed where
  "roles_seed = \<lparr>Name = ''000_roles.sql'', SQL = ''INSERT INTO roles (id) VALUES (1);''\<rparr>"

definition tags_seed :: seed where
  "tags_seed = \<lparr>Name = ''003_tags.sql'', SQL = ''INSERT INTO tags (id) VALUES (1);''\<rparr>"

text \<open>
  Two seeders: one that holds three seeds to run, and one that has loaded a seed before
  the directory of the example is loaded.
\<close>

definition example_run :: state where
  "example_run = (NewSeeder [])\<lparr>seeds := [users_seed, posts_seed, tags_seed]\<rparr>"

definition example_loaded :: state where
  "example_loaded = (NewSeeder [])\<lparr>seeds := [tags_seed]\<rparr>"

text \<open>
  Drivers: one that accepts every call, one that refuses to begin a transaction, and one
  on which the execution of the given SQL text fails with \<open>cause\<close> and every rollback
  has the outcome \<open>rb\<close>.
\<close>

definition drv_ok :: driver where
  "drv_ok history call = None"

definition drv_no_begin :: driver where
  "drv_no_begin history call = (if call = Begin then Some ''connection refused'' else None)"

definition drv_exec_fails :: "string \<Rightarrow> string \<Rightarrow> string option \<Rightarrow> driver" where
  "drv_exec_fails text cause rb history call =
     (if call = Exec text then Some cause else if call = Rollback then rb else None)"

section \<open>Properties of the library functions\<close>

subsection \<open>\<^verbatim>\<open>sort.Slice\<close> by a key: an ordered permutation\<close>

lemma mset_sift: "mset (sift lt x ys) = add_mset x (mset ys)"
  by (induction ys) auto

lemma set_sift: "set (sift lt x ys) = insert x (set ys)"
  by (induction ys) auto

lemma mset_foldl_sift: "mset (foldl (\<lambda>acc x. sift lt x acc) acc xs) = mset acc + mset xs"
  by (induction xs arbitrary: acc) (auto simp: mset_sift)

lemma mset_sort_Slice: "mset (sort_Slice lt xs) = mset xs"
  by (simp add: sort_Slice_def mset_foldl_sift)

lemma set_sort_Slice: "set (sort_Slice lt xs) = set xs"
  using mset_sort_Slice [of lt xs] by (metis set_mset_mset)

lemma length_sort_Slice: "length (sort_Slice lt xs) = length xs"
  using mset_sort_Slice [of lt xs] by (metis size_mset)

lemma sift_descending:
  fixes key :: "'a \<Rightarrow> 'k::linorder"
  assumes "sorted_wrt (\<lambda>a b. key b \<le> key a) ys"
  shows "sorted_wrt (\<lambda>a b. key b \<le> key a) (sift (\<lambda>a b. key a < key b) x ys)"
  using assms by (induction ys) (auto simp: set_sift)

lemma foldl_sift_descending:
  fixes key :: "'a \<Rightarrow> 'k::linorder"
  assumes "sorted_wrt (\<lambda>a b. key b \<le> key a) acc"
  shows "sorted_wrt (\<lambda>a b. key b \<le> key a) (foldl (\<lambda>acc x. sift (\<lambda>a b. key a < key b) x acc) acc xs)"
  using assms by (induction xs arbitrary: acc) (auto simp: sift_descending)

lemma sorted_sort_Slice:
  fixes key :: "'a \<Rightarrow> 'k::linorder"
  shows "sorted (map key (sort_Slice (\<lambda>a b. key a < key b) xs))"
proof -
  have "sorted_wrt (\<lambda>a b. key b \<le> key a) (foldl (\<lambda>acc x. sift (\<lambda>a b. key a < key b) x acc) [] xs)"
    by (rule foldl_sift_descending) simp
  then show ?thesis
    by (simp add: sort_Slice_def sorted_wrt_rev sorted_map)
qed

lemma sorted_key_unique:
  fixes key :: "'a \<Rightarrow> 'k::linorder"
  assumes d: "distinct (map key xs)" and m: "mset ys = mset xs"
    and sx: "sorted (map key xs)" and sy: "sorted (map key ys)"
  shows "ys = xs"
proof -
  have "mset (map key ys) = mset (map key xs)"
    using m by simp
  then have dy: "distinct (map key ys)"
    using d mset_eq_imp_distinct_iff by blast
  have s: "set ys = set xs"
    using m by (rule mset_eq_setD)
  have "inj_on key (set xs)"
    using d by (simp add: distinct_map)
  then have i: "inj_on key (set ys \<union> set xs)"
    by (simp add: s)
  show ?thesis
    by (rule map_sorted_distinct_set_unique [OF i sy dy sx d s])
qed

lemma sort_Slice_unique:
  fixes key :: "'a \<Rightarrow> 'k::linorder"
  assumes "distinct (map key xs)" and "mset ys = mset xs"
  shows "sort_Slice (\<lambda>a b. key a < key b) ys = sort_Slice (\<lambda>a b. key a < key b) xs"
proof (rule sorted_key_unique [where key = key])
  have "mset (map key (sort_Slice (\<lambda>a b. key a < key b) xs)) = mset (map key xs)"
    by (simp add: mset_sort_Slice)
  then show "distinct (map key (sort_Slice (\<lambda>a b. key a < key b) xs))"
    using assms(1) mset_eq_imp_distinct_iff by blast
  show "mset (sort_Slice (\<lambda>a b. key a < key b) ys) = mset (sort_Slice (\<lambda>a b. key a < key b) xs)"
    using assms(2) by (simp add: mset_sort_Slice)
qed (rule sorted_sort_Slice)+

lemma sort_Slice_sorted_id:
  fixes key :: "'a \<Rightarrow> 'k::linorder"
  assumes "sorted_wrt (<) (map key xs)"
  shows "sort_Slice (\<lambda>a b. key a < key b) xs = xs"
proof (rule sorted_key_unique [where key = key])
  show "distinct (map key xs)" "sorted (map key xs)"
    using assms by (simp_all add: strict_sorted_iff)
  show "mset (sort_Slice (\<lambda>a b. key a < key b) xs) = mset xs"
    by (rule mset_sort_Slice)
  show "sorted (map key (sort_Slice (\<lambda>a b. key a < key b) xs))"
    by (rule sorted_sort_Slice)
qed

lemma strict_sorted_sort_Slice:
  fixes key :: "'a \<Rightarrow> 'k::linorder"
  assumes "distinct (map key xs)"
  shows "sorted_wrt (<) (map key (sort_Slice (\<lambda>a b. key a < key b) xs))"
proof -
  have "mset (map key (sort_Slice (\<lambda>a b. key a < key b) xs)) = mset (map key xs)"
    by (simp add: mset_sort_Slice)
  then have "distinct (map key (sort_Slice (\<lambda>a b. key a < key b) xs))"
    using assms mset_eq_imp_distinct_iff by blast
  then show ?thesis
    by (simp add: strict_sorted_iff sorted_sort_Slice)
qed

section \<open>Running the seeds\<close>

subsection \<open>One seed, and the loop over the seeds\<close>

lemma executeSeed_seeds: "seeds (snd (executeSeed drv st sd)) = seeds st"
  by (simp add: executeSeed_def db_do_def Let_def split: option.split)

lemma seed_loop_seeds: "seeds (snd (seed_loop drv st sds)) = seeds st"
proof (induction sds arbitrary: st)
  case Nil
  show ?case by simp
next
  case (Cons sd sds)
  show ?case
  proof (cases "executeSeed drv st sd")
    case (Pair r st1)
    then have "seeds st1 = seeds st"
      using executeSeed_seeds [of drv st sd] by simp
    then show ?thesis
      using Pair Cons.IH [of st1] by (cases r) simp_all
  qed
qed

lemma executeSeed_cases:
  assumes "executeSeed drv st sd = (r, st')"
  shows "r = None \<and> st' = st\<lparr>db_trace := db_trace st @ ok_calls sd, stdout := stdout st @ notice sd\<rparr>
    \<or> (\<exists>e rb c. r = Some e \<and> st' = st\<lparr>db_trace := db_trace st @ failed_calls sd rb e\<rparr>
          \<and> (e = BeginFailed c \<or> e = ExecFailed (Name sd) c \<or> e = CommitFailed (Name sd) c))"
proof -
  let ?b = "drv (db_trace st) Begin"
  let ?e = "drv (db_trace st @ [(Begin, None)]) (Exec (SQL sd))"
  show ?thesis
  proof (cases ?b)
    case (Some c)
    then have "r = Some (BeginFailed c)" "st' = st\<lparr>db_trace := db_trace st @ failed_calls sd None (BeginFailed c)\<rparr>"
      using assms by (simp_all add: executeSeed_def db_do_def Let_def)
    then show ?thesis by blast
  next
    case None
    note b = this
    show ?thesis
    proof (cases ?e)
      case (Some c)
      let ?rb = "drv (db_trace st @ [(Begin, None), (Exec (SQL sd), Some c)]) Rollback"
      have "r = Some (ExecFailed (Name sd) c)"
        "st' = st\<lparr>db_trace := db_trace st @ failed_calls sd ?rb (ExecFailed (Name sd) c)\<rparr>"
        using assms b Some by (simp_all add: executeSeed_def db_do_def Let_def)
      then show ?thesis by blast
    next
      case None
      note e = this
      let ?c = "drv (db_trace st @ [(Begin, None), (Exec (SQL sd), None)]) Commit"
      show ?thesis
      proof (cases ?c)
        case (Some c)
        have "r = Some (CommitFailed (Name sd) c)"
          "st' = st\<lparr>db_trace := db_trace st @ failed_calls sd None (CommitFailed (Name sd) c)\<rparr>"
          using assms b e Some by (simp_all add: executeSeed_def db_do_def Let_def)
        then show ?thesis by blast
      next
        case None
        then have "r = None"
          "st' = st\<lparr>db_trace := db_trace st @ ok_calls sd, stdout := stdout st @ notice sd\<rparr>"
          using assms b e by (simp_all add: executeSeed_def db_do_def Let_def ok_calls_def notice_def)
        then show ?thesis by blast
      qed
    qed
  qed
qed

lemma seed_loop_cases:
  assumes "seed_loop drv st sds = (r, st')"
  shows "r = None
      \<and> st' = st\<lparr>db_trace := db_trace st @ concat (map ok_calls sds),
                 stdout := stdout st @ concat (map notice sds)\<rparr>
    \<or> (\<exists>pre sd post e rb c. sds = pre @ sd # post \<and> r = Some e
          \<and> st' = st\<lparr>db_trace := db_trace st @ concat (map ok_calls pre) @ failed_calls sd rb e,
                     stdout := stdout st @ concat (map notice pre)\<rparr>
          \<and> (e = BeginFailed c \<or> e = ExecFailed (Name sd) c \<or> e = CommitFailed (Name sd) c))"
  using assms
proof (induction sds arbitrary: st)
  case Nil
  then show ?case by simp
next
  case (Cons sd sds)
  obtain r1 st1 where ex: "executeSeed drv st sd = (r1, st1)"
    by (cases "executeSeed drv st sd")
  from executeSeed_cases [OF ex] consider
    (ok) "r1 = None"
      "st1 = st\<lparr>db_trace := db_trace st @ ok_calls sd, stdout := stdout st @ notice sd\<rparr>"
    | (failed) e rb c where "r1 = Some e"
      "st1 = st\<lparr>db_trace := db_trace st @ failed_calls sd rb e\<rparr>"
      "e = BeginFailed c \<or> e = ExecFailed (Name sd) c \<or> e = CommitFailed (Name sd) c"
    by blast
  then show ?case
  proof cases
    case ok
    then have loop: "seed_loop drv st1 sds = (r, st')"
      using Cons.prems ex by simp
    from Cons.IH [OF loop] consider
      (all) "r = None"
        "st' = st1\<lparr>db_trace := db_trace st1 @ concat (map ok_calls sds),
                 stdout := stdout st1 @ concat (map notice sds)\<rparr>"
      | (stop) pre sd' post e rb c where "sds = pre @ sd' # post" "r = Some e"
        "st' = st1\<lparr>db_trace := db_trace st1 @ concat (map ok_calls pre) @ failed_calls sd' rb e,
                     stdout := stdout st1 @ concat (map notice pre)\<rparr>"
        "e = BeginFailed c \<or> e = ExecFailed (Name sd') c \<or> e = CommitFailed (Name sd') c"
      by blast
    then show ?thesis
    proof cases
      case all
      then show ?thesis by (simp add: ok(2))
    next
      case stop
      then have "sd # sds = (sd # pre) @ sd' # post \<and> r = Some e
          \<and> st' = st\<lparr>db_trace := db_trace st @ concat (map ok_calls (sd # pre)) @ failed_calls sd' rb e,
                     stdout := stdout st @ concat (map notice (sd # pre))\<rparr>
          \<and> (e = BeginFailed c \<or> e = ExecFailed (Name sd') c \<or> e = CommitFailed (Name sd') c)"
        by (simp add: ok(2))
      then show ?thesis by blast
    qed
  next
    case failed
    then have "r = Some e" "st' = st1"
      using Cons.prems ex by simp_all
    then have "sd # sds = [] @ sd # sds \<and> r = Some e
          \<and> st' = st\<lparr>db_trace := db_trace st @ concat (map ok_calls []) @ failed_calls sd rb e,
                     stdout := stdout st @ concat (map notice [])\<rparr>
          \<and> (e = BeginFailed c \<or> e = ExecFailed (Name sd) c \<or> e = CommitFailed (Name sd) c)"
      using failed by simp
    then show ?thesis by blast
  qed
qed

subsection \<open>The properties of \<^verbatim>\<open>Seed\<close> and \<^verbatim>\<open>executeSeed\<close>\<close>

text \<open>
  Claim C10. \<^verbatim>\<open>Seed\<close> never modifies the sequence of seeds: after a run, whether
  it succeeded or failed at some seed, the Seeder holds the seeds it held before, in the
  same order, so that a second run executes the same seeds again.
\<close>

theorem Seed_keeps_seeds: "seeds (snd (Seed drv st)) = seeds st"
  by (simp add: Seed_def seed_loop_seeds)

theorem Seed_keeps_seeds_witness:
  "fst (Seed (drv_exec_fails posts_sql ''no such column'' None) example_run)
     = Some (ExecFailed ''002_posts.sql'' ''no such column'')
   \<and> seeds (snd (Seed (drv_exec_fails posts_sql ''no such column'' None) example_run))
     = [users_seed, posts_seed, tags_seed]"
proof -
  have "fst (Seed (drv_exec_fails posts_sql ''no such column'' None) example_run)
     = Some (ExecFailed ''002_posts.sql'' ''no such column'')"
    by code_simp
  moreover have "seeds example_run = [users_seed, posts_seed, tags_seed]"
    by (simp add: example_run_def)
  ultimately show ?thesis
    using Seed_keeps_seeds [of "drv_exec_fails posts_sql ''no such column'' None" example_run]
    by simp
qed

text \<open>
  Claim C1, amended. \<^verbatim>\<open>Seed\<close> executes the seeds in their stored order, each in a
  transaction of its own. Either every seed is committed and the run succeeds, or the run
  ends at the first seed \<open>sd\<close> whose execution fails: the seeds \<open>pre\<close> before it
  were begun, executed and committed and nothing was called on the database for them
  afterwards (they are not undone), the calls for \<open>sd\<close> are the last ones (no seed of
  \<open>post\<close> is executed), and the error returned is the one that \<^verbatim>\<open>executeSeed\<close>
  built for \<open>sd\<close>. That error carries the name of \<open>sd\<close> when the execution or the
  commit failed; when the transaction could not be started it carries no name.
\<close>

theorem Seed_first_failure_aborts:
  assumes "Seed drv st = (r, st')"
  shows "r = None
      \<and> st' = st\<lparr>db_trace := db_trace st @ concat (map ok_calls (seeds st)),
                 stdout := stdout st @ concat (map notice (seeds st))\<rparr>
    \<or> (\<exists>pre sd post e rb c. seeds st = pre @ sd # post \<and> r = Some e
          \<and> st' = st\<lparr>db_trace := db_trace st @ concat (map ok_calls pre) @ failed_calls sd rb e,
                     stdout := stdout st @ concat (map notice pre)\<rparr>
          \<and> (e = BeginFailed c \<or> e = ExecFailed (Name sd) c \<or> e = CommitFailed (Name sd) c))"
  using assms unfolding Seed_def by (rule seed_loop_cases)

theorem Seed_first_failure_aborts_witness:
  "Seed (drv_exec_fails posts_sql ''no such column'' None) example_run
     = (Some (ExecFailed ''002_posts.sql'' ''no such column''),
        example_run\<lparr>db_trace := ok_calls users_seed @ failed_calls posts_seed None (ExecFailed ''002_posts.sql'' ''no such column''),
                    stdout := notice users_seed\<rparr>)
   \<and> (\<exists>pre sd post e rb c. seeds example_run = pre @ sd # post
        \<and> Some (ExecFailed ''002_posts.sql'' ''no such column'') = Some e
        \<and> example_run\<lparr>db_trace := ok_calls users_seed @ failed_calls posts_seed None (ExecFailed ''002_posts.sql'' ''no such column''),
                    stdout := notice users_seed\<rparr>
          = example_run\<lparr>db_trace := db_trace example_run @ concat (map ok_calls pre) @ failed_calls sd rb e,
                     stdout := stdout example_run @ concat (map notice pre)\<rparr>
        \<and> (e = BeginFailed c \<or> e = ExecFailed (Name sd) c \<or> e = CommitFailed (Name sd) c))"
proof -
  have run: "Seed (drv_exec_fails posts_sql ''no such column'' None) example_run
     = (Some (ExecFailed ''002_posts.sql'' ''no such column''),
        example_run\<lparr>db_trace := ok_calls users_seed @ failed_calls posts_seed None (ExecFailed ''002_posts.sql'' ''no such column''),
                    stdout := notice users_seed\<rparr>)"
    by code_simp
  from Seed_first_failure_aborts [OF run] show ?thesis
    using run by simp
qed

text \<open>
  Claim C1 as stated fails: when the database refuses to begin the transaction of a seed,
  the error that \<^verbatim>\<open>Seed\<close> returns is \<^verbatim>\<open>error starting transaction: ...\<close>, in which
  the name of the failing seed does not occur.
\<close>

theorem Seed_begin_error_names_no_seed:
  "fst (Seed drv_no_begin ((NewSeeder [])\<lparr>seeds := [users_seed]\<rparr>))
     = Some (BeginFailed ''connection refused'')
   \<and> Error (BeginFailed ''connection refused'') = ''error starting transaction: connection refused''
   \<and> \<not> sublist (Name users_seed) (Error (BeginFailed ''connection refused''))"
  by code_simp

text \<open>
  Claim C3, amended. When the execution of the SQL of a seed fails, \<^verbatim>\<open>executeSeed\<close>
  calls \<^verbatim>\<open>Rollback\<close> on the transaction and returns the execution error, which names
  the seed and wraps the cause. The outcome of the rollback is recorded by the database
  only: the error returned does not depend on it.
\<close>

theorem executeSeed_exec_failure:
  assumes "drv (db_trace st) Begin = None"
    and "drv (db_trace st @ [(Begin, None)]) (Exec (SQL sd)) = Some c"
  shows "executeSeed drv st sd =
      (Some (ExecFailed (Name sd) c),
       st\<lparr>db_trace := db_trace st @
          [(Begin, None), (Exec (SQL sd), Some c),
           (Rollback, drv (db_trace st @ [(Begin, None), (Exec (SQL sd), Some c)]) Rollback)]\<rparr>)
    \<and> Error (ExecFailed (Name sd) c) = ''error executing seed '' @ Name sd @ '': '' @ c"
  using assms by (simp add: executeSeed_def db_do_def Let_def)

theorem executeSeed_exec_failure_witness:
  "executeSeed (drv_exec_fails posts_sql ''no such column'' None) (NewSeeder []) posts_seed =
      (Some (ExecFailed ''002_posts.sql'' ''no such column''),
       (NewSeeder [])\<lparr>db_trace :=
          [(Begin, None), (Exec posts_sql, Some ''no such column''), (Rollback, None)]\<rparr>)
    \<and> Error (ExecFailed ''002_posts.sql'' ''no such column'')
        = ''error executing seed 002_posts.sql: no such column''"
  using executeSeed_exec_failure [of "drv_exec_fails posts_sql ''no such column'' None"
      "NewSeeder []" posts_seed "''no such column''"]
  by (simp add: drv_exec_fails_def posts_seed_def NewSeeder_def)

text \<open>
  Claim C3 as stated fails: a rollback that fails with \<^verbatim>\<open>connection lost\<close> is not
  surfaced. The caller receives the execution error alone, and its message does not mention
  the failure of the rollback.
\<close>

theorem executeSeed_rollback_error_discarded:
  "fst (executeSeed (drv_exec_fails posts_sql ''no such column'' (Some ''connection lost''))
          (NewSeeder []) posts_seed)
     = Some (ExecFailed ''002_posts.sql'' ''no such column'')
   \<and> db_trace (snd (executeSeed (drv_exec_fails posts_sql ''no such column'' (Some ''connection lost''))
          (NewSeeder []) posts_seed))
     = [(Begin, None), (Exec posts_sql, Some ''no such column''), (Rollback, Some ''connection lost'')]
   \<and> Error (ExecFailed ''002_posts.sql'' ''no such column'')
     = ''error executing seed 002_posts.sql: no such column''
   \<and> \<not> sublist ''connection lost'' (Error (ExecFailed ''002_posts.sql'' ''no such column''))"
  by code_simp

section \<open>Loading the seeds\<close>

text \<open>
  Claim C5. When the directory cannot be listed, \<^verbatim>\<open>LoadSeeds\<close> returns the
  directory-read error that wraps the cause, and the Seeder holds exactly the seeds it held
  before the call; no file is read.
\<close>

theorem LoadSeeds_readdir_error:
  assumes "readdir fs dir = Inl err"
  shows "LoadSeeds fs dir st
      = (Some (ReadDirFailed err), st\<lparr>fs_trace := fs_trace st @ [ReadDirCall dir]\<rparr>)
    \<and> seeds (snd (LoadSeeds fs dir st)) = seeds st
    \<and> Error (ReadDirFailed err) = ''failed to read seeds directory: '' @ err"
  using assms by (simp add: LoadSeeds_def ReadDir_def)

theorem LoadSeeds_readdir_error_witness:
  "LoadSeeds example_fs ''missing'' example_loaded
      = (Some (ReadDirFailed ''open missing: no such file or directory''),
         example_loaded\<lparr>fs_trace := [ReadDirCall ''missing'']\<rparr>)
    \<and> seeds (snd (LoadSeeds example_fs ''missing'' example_loaded)) = [tags_seed]
    \<and> Error (ReadDirFailed ''open missing: no such file or directory'')
        = ''failed to read seeds directory: open missing: no such file or directory''"
  using LoadSeeds_readdir_error [of example_fs "''missing''" "''open missing: no such file or directory''" example_loaded]
  by (simp add: example_fs_def example_loaded_def NewSeeder_def)

text \<open>
  Claim C9. After every call of \<^verbatim>\<open>LoadSeeds\<close> that returns no error, the whole sequence
  of seeds of the Seeder, those of earlier calls included, is sorted in ascending order by
  name.
\<close>

theorem LoadSeeds_sorted:
  assumes "LoadSeeds fs dir st = (None, st')"
  shows "sorted (map Name (seeds st'))"
proof (cases "ReadDir fs st dir")
  case (Pair r st1)
  show ?thesis
  proof (cases r)
    case (Inl err)
    then show ?thesis
      using assms Pair by (simp add: LoadSeeds_def)
  next
    case (Inr files)
    obtain r2 st2 where l: "load_files fs dir files st1 = (r2, st2)"
      by (cases "load_files fs dir files st1")
    then have "st' = st2\<lparr>seeds := sort_Slice (\<lambda>a b. Name a < Name b) (seeds st2)\<rparr>"
      using assms Pair Inr by (cases r2) (simp_all add: LoadSeeds_def)
    then show ?thesis
      by (simp add: sorted_sort_Slice)
  qed
qed

theorem LoadSeeds_sorted_witness:
  "fst (LoadSeeds example_fs ''seeds'' example_loaded) = None
   \<and> seeds (snd (LoadSeeds example_fs ''seeds'' example_loaded)) = [users_seed, posts_seed, tags_seed]
   \<and> sorted (map Name (seeds (snd (LoadSeeds example_fs ''seeds'' example_loaded))))"
proof -
  have a: "fst (LoadSeeds example_fs ''seeds'' example_loaded) = None"
    by code_simp
  have b: "seeds (snd (LoadSeeds example_fs ''seeds'' example_loaded)) = [users_seed, posts_seed, tags_seed]"
    by code_simp
  have "LoadSeeds example_fs ''seeds'' example_loaded = (None, snd (LoadSeeds example_fs ''seeds'' example_loaded))"
    using a by (metis prod.collapse)
  from LoadSeeds_sorted [OF this] a b show ?thesis
    by simp
qed

end
